theory Spec2Isabelle
  imports Main "HOL-Library.Word"
begin

unbundle bit_operations_syntax

section \<open>The MASM-style unparser of pharos (libpharos/masm.cpp)\<close>

subsection \<open>Text produced by the C and C++ formatting primitives\<close>

text \<open>
  The source formats numbers with \<^verbatim>\<open>sprintf\<close> (\<^verbatim>\<open>"%#" PRIx64\<close>, \<^verbatim>\<open>"%02X"\<close>),
  with a \<^verbatim>\<open>std::ostringstream\<close> switched to \<^verbatim>\<open>std::hex\<close>, and with
  \<^verbatim>\<open>std::to_string\<close>.  Their output on unsigned values is modelled digit by digit.
\<close>

definition hexdigit :: "nat \<Rightarrow> char" where
  "hexdigit d = ''0123456789abcdef'' ! d"

definition HEXDIGIT :: "nat \<Rightarrow> char" where
  "HEXDIGIT d = ''0123456789ABCDEF'' ! d"

definition decdigit :: "nat \<Rightarrow> char" where
  "decdigit d = ''0123456789'' ! d"

text \<open>Lower-case hexadecimal digits of a number, most significant first, without padding:
  what \<^verbatim>\<open>%x\<close> and \<^verbatim>\<open>os << std::hex << n\<close> print.\<close>

fun hex_nat :: "nat \<Rightarrow> string" where
  "hex_nat n = (if n < 16 then [hexdigit n] else hex_nat (n div 16) @ [hexdigit (n mod 16)])"

declare hex_nat.simps [simp del]

text \<open>Decimal digits, as \<^verbatim>\<open>std::to_string\<close> prints a \<^verbatim>\<open>size_t\<close>.\<close>

fun dec_nat :: "nat \<Rightarrow> string" where
  "dec_nat n = (if n < 10 then [decdigit n] else dec_nat (n div 10) @ [decdigit (n mod 10)])"

declare dec_nat.simps [simp del]

text \<open>\<^verbatim>\<open>sprintf(buf, "%#" PRIx64, v)\<close>: the alternate form prefixes \<^verbatim>\<open>0x\<close> to a
  nonzero result only; zero is printed as a single \<^verbatim>\<open>0\<close>.\<close>

definition sprintf_hash_x :: "64 word \<Rightarrow> string" where
  "sprintf_hash_x v = (if v = 0 then ''0'' else ''0x'' @ hex_nat (unat v))"

text \<open>\<^verbatim>\<open>sprintf(buffer, "%02X", b)\<close> on an \<^verbatim>\<open>unsigned char\<close>: two upper-case digits.\<close>

definition sprintf_02X :: "8 word \<Rightarrow> string" where
  "sprintf_02X b = [HEXDIGIT (unat b div 16), HEXDIGIT (unat b mod 16)]"

subsection \<open>Errors\<close>

text \<open>
  Every way in which a call of the source does not return a string is a value:
  the fatal default case of the dispatch (\<^verbatim>\<open>GFATAL\<close> and \<^verbatim>\<open>ROSE_ASSERT(false)\<close>),
  a dereference of a null member pointer in \<^verbatim>\<open>emit\<close>, a read of bit \<^verbatim>\<open>size() - 1\<close>
  of an empty bit vector, and a \<^verbatim>\<open>sprintf\<close> into \<^verbatim>\<open>char buf[64]\<close> that does not fit.
\<close>

datatype error =
    UnhandledExpressionKind string
  | NullPointerDereference
  | BitVectorIndexOutOfRange
  | BufferOverflow

text \<open>\<^verbatim>\<open>sprintf(buf, "%s", label.c_str())\<close> followed by \<^verbatim>\<open>result = buf\<close>: the C string
  ends at the first NUL character, and it must fit \<^verbatim>\<open>char buf[64]\<close> with its terminator.\<close>

definition c_str :: "string \<Rightarrow> string" where
  "c_str s = takeWhile (\<lambda>c. c \<noteq> CHR 0x00) s"

definition sprintf_s :: "string \<Rightarrow> error + string" where
  "sprintf_s s = (if length (c_str s) < 64 then Inr (c_str s) else Inl BufferOverflow)"

subsection \<open>Expression trees\<close>

text \<open>A register descriptor of ROSE (major and minor number, bit offset, width).  The
  unparser never looks inside; it hands the descriptor to \<^verbatim>\<open>unparseX86Register\<close>, which is
  a parameter \<open>regs\<close> of the model.\<close>

record RegisterDescriptor =
  majr :: nat
  minr :: nat
  offset :: nat
  nbits :: nat

type_synonym RegisterNamer = "RegisterDescriptor \<Rightarrow> string"

text \<open>
  An \<^verbatim>\<open>SgAsmExpression *\<close>.  The pointer may be null (\<open>NullExpression\<close>).  The variants
  are those the dispatch of \<^verbatim>\<open>masm_unparseX86Expression\<close> names; every other node class
  of ROSE is \<open>SgAsmOtherExpression\<close> with its class name.  A memory reference carries its
  address and its segment expression (its type is read only in a branch the source
  disables with \<^verbatim>\<open>ambiguous = false\<close>).  An integer literal carries the size of its bit
  vector and the bits themselves, held in 64 bits.
\<close>

datatype SgAsmExpression =
    NullExpression
  | SgAsmBinaryAdd SgAsmExpression SgAsmExpression
  | SgAsmBinarySubtract SgAsmExpression SgAsmExpression
  | SgAsmBinaryMultiply SgAsmExpression SgAsmExpression
  | SgAsmMemoryReferenceExpression SgAsmExpression SgAsmExpression
  | SgAsmDirectRegisterExpression RegisterDescriptor
  | SgAsmIndirectRegisterExpression RegisterDescriptor nat
  | SgAsmIntegerValueExpression nat "64 word"
  | SgAsmOtherExpression string

text \<open>An integer-literal node as the matcher keeps it: bit-vector size and bits.\<close>

type_synonym IntegerValue = "nat \<times> 64 word"

text \<open>
  The accessors of ROSE's integer-literal node are library code, not part of the sources;
  the five definitions below stand for them.  The spec's data model gives a literal a
  declared bit width and "the unsigned bit pattern of declared width", and a displacement
  that is a signed 64-bit number.
\<close>

text \<open>Modelled from the spec: \<^verbatim>\<open>get_significantBits\<close>, the declared bit width (the size
  of the bit vector).\<close>

definition get_significantBits :: "IntegerValue \<Rightarrow> nat" where
  "get_significantBits iv = fst iv"

text \<open>Modelled from the spec: \<^verbatim>\<open>get_absoluteValue\<close>, the unsigned bit pattern of declared
  width: the bits below the width, zero-filled to 64 bits.\<close>

definition get_absoluteValue :: "IntegerValue \<Rightarrow> 64 word" where
  "get_absoluteValue iv = take_bit (fst iv) (snd iv)"

text \<open>Modelled from the spec: \<^verbatim>\<open>SageInterface::getAsmConstant\<close>, "the value's 64-bit
  interpretation": the same unsigned reading.\<close>

definition getAsmConstant :: "IntegerValue \<Rightarrow> 64 word" where
  "getAsmConstant iv = get_absoluteValue iv"

text \<open>Modelled from the spec: \<^verbatim>\<open>get_signedValue\<close>, the signed 64-bit reading: the bit
  pattern sign-extended from the declared width (an \<^verbatim>\<open>int64_t\<close>, kept as its 64 bits).\<close>

definition get_signedValue :: "IntegerValue \<Rightarrow> 64 word" where
  "get_signedValue iv = signed_take_bit (fst iv - 1) (get_absoluteValue iv)"

text \<open>Modelled from the spec: \<^verbatim>\<open>get_bitVector().get(i)\<close>, bit \<open>i\<close> of the bit pattern,
  for \<open>i\<close> below the width (\<^verbatim>\<open>emit\<close> reads bit \<^verbatim>\<open>size() - 1\<close>, the sign bit of the
  declared width).\<close>

definition bitVector_get :: "IntegerValue \<Rightarrow> nat \<Rightarrow> bool" where
  "bitVector_get iv i = bit (get_absoluteValue iv) i"

subsection \<open>Labels\<close>

type_synonym RoseLabelMap = "64 word \<rightharpoonup> string"

text \<open>\<^verbatim>\<open>masm_x86ValToLabel\<close>: the empty string for the value 0, for a null map pointer
  and for a value that is not a key; the mapped name otherwise.\<close>

definition masm_x86ValToLabel :: "64 word \<Rightarrow> RoseLabelMap option \<Rightarrow> string" where
  "masm_x86ValToLabel val labels =
     (case labels of
        None \<Rightarrow> ''''
      | Some m \<Rightarrow> if val = 0 then '''' else (case m val of None \<Rightarrow> '''' | Some name \<Rightarrow> name))"

subsection \<open>The address-pattern matcher \<^verbatim>\<open>X86IndirectAddress\<close>\<close>

text \<open>The four member pointers (null is \<open>None\<close>) and the flag \<^verbatim>\<open>complete_\<close>
  (the field \<open>complete\<close>: a name cannot end in an underscore here).\<close>

record X86IndirectAddress =
  frame_pointer_reg :: "RegisterDescriptor option"
  offset_integer :: "IntegerValue option"
  index_reg :: "RegisterDescriptor option"
  stride_integer :: "IntegerValue option"
  complete :: bool

definition X86IndirectAddress_init :: X86IndirectAddress where
  "X86IndirectAddress_init =
     \<lparr>frame_pointer_reg = None, offset_integer = None, index_reg = None,
      stride_integer = None, complete = False\<rparr>"

text \<open>
  The body of the constructor's \<^verbatim>\<open>for\<close> loop on one operand.  \<open>Inl\<close> is the early
  \<^verbatim>\<open>return\<close> (the object stays as it is, \<^verbatim>\<open>complete_\<close> still false); \<open>Inr\<close> goes on
  to the next operand.  The \<^verbatim>\<open>if\<close>/\<^verbatim>\<open>else if\<close> chain of the source has no final
  \<^verbatim>\<open>else\<close>: an operand that is neither a direct register, an integer literal nor a
  multiplication falls through and the loop continues.
\<close>

fun classify_multiply ::
  "SgAsmExpression \<Rightarrow> SgAsmExpression \<Rightarrow> X86IndirectAddress \<Rightarrow> X86IndirectAddress + X86IndirectAddress"
where
  "classify_multiply (SgAsmDirectRegisterExpression r) (SgAsmIntegerValueExpression n v) ia =
     (if index_reg ia \<noteq> None then Inl ia
      else Inr (ia\<lparr>index_reg := Some r, stride_integer := Some (n, v)\<rparr>))"
| "classify_multiply (SgAsmDirectRegisterExpression r) other ia = Inl ia"
| "classify_multiply (SgAsmIntegerValueExpression n v) (SgAsmDirectRegisterExpression r) ia =
     (if index_reg ia \<noteq> None then Inl ia
      else Inr (ia\<lparr>index_reg := Some r, stride_integer := Some (n, v)\<rparr>))"
| "classify_multiply other (SgAsmDirectRegisterExpression r) ia = Inl ia"
| "classify_multiply lhs rhs ia = Inl ia"

fun classify_operand ::
  "SgAsmExpression \<Rightarrow> X86IndirectAddress \<Rightarrow> X86IndirectAddress + X86IndirectAddress"
where
  "classify_operand (SgAsmDirectRegisterExpression reg) ia =
     (if frame_pointer_reg ia \<noteq> None then Inl ia
      else Inr (ia\<lparr>frame_pointer_reg := Some reg\<rparr>))"
| "classify_operand (SgAsmIntegerValueExpression n v) ia =
     (if offset_integer ia \<noteq> None then Inl ia
      else Inr (ia\<lparr>offset_integer := Some (n, v)\<rparr>))"
| "classify_operand (SgAsmBinaryMultiply lhs rhs) ia = classify_multiply lhs rhs ia"
| "classify_operand op ia = Inr ia"

text \<open>The loop over \<^verbatim>\<open>operand[0..2]\<close>, and \<^verbatim>\<open>complete_ = true\<close> after it.\<close>

fun classify_loop :: "SgAsmExpression list \<Rightarrow> X86IndirectAddress \<Rightarrow> X86IndirectAddress" where
  "classify_loop [] ia = ia\<lparr>complete := True\<rparr>"
| "classify_loop (op # ops) ia =
     (case classify_operand op ia of
        Inl ia' \<Rightarrow> ia'
      | Inr ia' \<Rightarrow> classify_loop ops ia')"

text \<open>The constructor: the expression must be a memory reference whose address is an
  addition with an addition on its left or, failing that, on its right.\<close>

fun X86IndirectAddress_ctor :: "SgAsmExpression \<Rightarrow> X86IndirectAddress" where
  "X86IndirectAddress_ctor (SgAsmMemoryReferenceExpression (SgAsmBinaryAdd (SgAsmBinaryAdd a b) c) seg) =
     classify_loop [a, b, c] X86IndirectAddress_init"
| "X86IndirectAddress_ctor (SgAsmMemoryReferenceExpression (SgAsmBinaryAdd a (SgAsmBinaryAdd b c)) seg) =
     classify_loop [a, b, c] X86IndirectAddress_init"
| "X86IndirectAddress_ctor expr = X86IndirectAddress_init"

text \<open>
  \<^verbatim>\<open>emit\<close>.  The stream is in \<^verbatim>\<open>std::hex\<close> mode for the whole function, so the stride
  is printed in hexadecimal too (without prefix).  \<^verbatim>\<open>neg\<close> is the top bit of the
  offset's bit vector; the offset is read sign-extended, negated when \<^verbatim>\<open>neg\<close> (in 64-bit
  two's complement), and a signed value in hex mode is printed as the unsigned value of
  the same bits.  The member pointers are dereferenced without a check (\<open>emit\<close>);
  \<open>emit_text\<close> is the body once all four are known to be set.
\<close>

definition emit_text ::
  "RegisterNamer \<Rightarrow> RegisterDescriptor \<Rightarrow> RegisterDescriptor \<Rightarrow> IntegerValue \<Rightarrow> IntegerValue
     \<Rightarrow> error + string"
where
  "emit_text regs fp ix stride off =
     (let val = get_absoluteValue stride in
      if get_significantBits off = 0 then Inl BitVectorIndexOutOfRange
      else
        (let neg = bitVector_get off (get_significantBits off - 1);
             offset = get_signedValue off
         in Inr (''['' @ regs fp @ ''+'' @ regs ix
                 @ (if val \<noteq> 1 then ''*'' @ hex_nat (unat val) else '''')
                 @ (if neg then ''-'' else ''+'')
                 @ ''0x'' @ hex_nat (unat (if neg then - offset else offset))
                 @ '']'')))"

definition emit :: "RegisterNamer \<Rightarrow> X86IndirectAddress \<Rightarrow> error + string" where
  "emit regs ia =
     (case (frame_pointer_reg ia, index_reg ia, stride_integer ia, offset_integer ia) of
        (Some fp, Some ix, Some stride, Some off) \<Rightarrow> emit_text regs fp ix stride off
      | _ \<Rightarrow> Inl NullPointerDereference)"

subsection \<open>The expression unparser\<close>

text \<open>The formatting of one integer literal (the case \<^verbatim>\<open>V_SgAsmIntegerValueExpression\<close>).
  For a width other than 8, 16, 32 and 64 no branch assigns \<^verbatim>\<open>result\<close>, which keeps its
  initial value, the empty string.\<close>

definition unparse_integer :: "IntegerValue \<Rightarrow> RoseLabelMap option \<Rightarrow> error + string" where
  "unparse_integer int_expr labels =
     (let v = getAsmConstant int_expr;
          bits = get_significantBits int_expr
      in
      if bits = 8 then
        (if v AND 0x80 \<noteq> 0 \<and> v AND 0x7f \<noteq> 0
         then Inr (''-'' @ sprintf_hash_x ((NOT v + 1) AND 0xff))
         else Inr (sprintf_hash_x v))
      else if bits = 16 then
        (if v AND 0x8000 \<noteq> 0 \<and> v AND 0x7fff \<noteq> 0
         then Inr (''-'' @ sprintf_hash_x ((NOT v + 1) AND 0xffff))
         else Inr (sprintf_hash_x v))
      else if bits = 32 then
        (let label = masm_x86ValToLabel v labels in
         if label \<noteq> [] then sprintf_s label
         else if v AND 0x80000000 \<noteq> 0 \<and> v AND 0x7fffffff \<noteq> 0
         then Inr (''-'' @ sprintf_hash_x ((NOT v + 1) AND 0xffffffff))
         else Inr (sprintf_hash_x v))
      else if bits = 64 then
        (let label = masm_x86ValToLabel v labels in
         if label \<noteq> [] then sprintf_s label
         else if v AND push_bit 63 1 \<noteq> 0 \<and> v AND (push_bit 63 1 - 1) \<noteq> 0
         then Inr (''-'' @ sprintf_hash_x (NOT v + 1))
         else Inr (sprintf_hash_x v))
      else Inr '''')"

text \<open>\<^verbatim>\<open>rstr[0] == '-'\<close>; on an empty \<^verbatim>\<open>std::string\<close> the character read is NUL.\<close>

definition starts_with_minus :: "string \<Rightarrow> bool" where
  "starts_with_minus s = (case s of [] \<Rightarrow> False | c # cs \<Rightarrow> c = CHR ''-'')"

text \<open>
  \<^verbatim>\<open>masm_unparseX86Expression(expr, insn, leaMode, labels)\<close>.  The instruction argument
  is only handed on to the recursive calls and is left out.  A failure of a recursive call
  ends the whole call.
\<close>

fun masm_unparseX86Expression ::
  "RegisterNamer \<Rightarrow> SgAsmExpression \<Rightarrow> bool \<Rightarrow> RoseLabelMap option \<Rightarrow> error + string"
where
  "masm_unparseX86Expression regs NullExpression leaMode labels = Inr ''BOGUS:NULL''"
| "masm_unparseX86Expression regs (SgAsmBinaryAdd lhs rhs) leaMode labels =
     (case masm_unparseX86Expression regs lhs False labels of
        Inl e \<Rightarrow> Inl e
      | Inr lstr \<Rightarrow>
          (case masm_unparseX86Expression regs rhs False labels of
             Inl e \<Rightarrow> Inl e
           | Inr rstr \<Rightarrow>
               if starts_with_minus rstr then Inr (lstr @ rstr)
               else Inr (lstr @ ''+'' @ rstr)))"
| "masm_unparseX86Expression regs (SgAsmBinarySubtract lhs rhs) leaMode labels =
     (case masm_unparseX86Expression regs lhs False labels of
        Inl e \<Rightarrow> Inl e
      | Inr lstr \<Rightarrow>
          (case masm_unparseX86Expression regs rhs False labels of
             Inl e \<Rightarrow> Inl e
           | Inr rstr \<Rightarrow> Inr (lstr @ ''-'' @ rstr)))"
| "masm_unparseX86Expression regs (SgAsmBinaryMultiply lhs rhs) leaMode labels =
     (case masm_unparseX86Expression regs lhs False labels of
        Inl e \<Rightarrow> Inl e
      | Inr lstr \<Rightarrow>
          (case masm_unparseX86Expression regs rhs False labels of
             Inl e \<Rightarrow> Inl e
           | Inr rstr \<Rightarrow> Inr (lstr @ ''*'' @ rstr)))"
| "masm_unparseX86Expression regs (SgAsmMemoryReferenceExpression address segexpr) leaMode labels =
     (let ia = X86IndirectAddress_ctor (SgAsmMemoryReferenceExpression address segexpr) in
      if complete ia then emit regs ia
      else
        (case (if \<not> leaMode \<and> segexpr \<noteq> NullExpression
               then (case masm_unparseX86Expression regs segexpr False None of
                       Inl e \<Rightarrow> Inl e
                     | Inr segreg \<Rightarrow> Inr (if segreg = ''fs'' then segreg @ '':'' else ''''))
               else Inr '''') of
           Inl e \<Rightarrow> Inl e
         | Inr result \<Rightarrow>
             (case masm_unparseX86Expression regs address False labels of
                Inl e \<Rightarrow> Inl e
              | Inr astr \<Rightarrow> Inr (result @ ''['' @ astr @ '']''))))"
| "masm_unparseX86Expression regs (SgAsmDirectRegisterExpression rr) leaMode labels =
     Inr (regs rr)"
| "masm_unparseX86Expression regs (SgAsmIndirectRegisterExpression rr idx) leaMode labels =
     Inr (''('' @ dec_nat idx @ '')'')"
| "masm_unparseX86Expression regs (SgAsmIntegerValueExpression n v) leaMode labels =
     unparse_integer (n, v) labels"
| "masm_unparseX86Expression regs (SgAsmOtherExpression class_name) leaMode labels =
     Inl (UnhandledExpressionKind class_name)"

subsection \<open>The byte dump\<close>

text \<open>\<^verbatim>\<open>debug_opcode_bytes(data, max_bytes)\<close>: the first \<open>min (size data) max_bytes\<close>
  bytes, two upper-case hexadecimal digits each, and a \<^verbatim>\<open>+\<close> when bytes were cut.\<close>

fun dump_loop :: "8 word list \<Rightarrow> string" where
  "dump_loop [] = ''''"
| "dump_loop (b # bs) = sprintf_02X b @ dump_loop bs"

definition debug_opcode_bytes :: "8 word list \<Rightarrow> 32 word \<Rightarrow> string" where
  "debug_opcode_bytes data max_bytes =
     (let n = (if length data > unat max_bytes then unat max_bytes else length data)
      in dump_loop (take n data) @ (if length data > unat max_bytes then ''+'' else ''''))"

subsection \<open>Readings used in the statements\<close>

text \<open>The number a literal denotes at its declared width, as a mathematical integer:
  the low \<open>width\<close> bits, read in two's complement.\<close>

definition signed_value :: "IntegerValue \<Rightarrow> int" where
  "signed_value iv = signed_take_bit (fst iv - 1) (take_bit (fst iv) (uint (snd iv)))"

text \<open>The numeral printed for a value \<open>v\<close> of width \<open>bits\<close> when no label replaces it:
  a minus sign and the two's-complement magnitude when the sign bit is set and some lower
  bit is set too, the \<^verbatim>\<open>%#x\<close> form of \<open>v\<close> otherwise.\<close>

definition numeral_text :: "nat \<Rightarrow> 64 word \<Rightarrow> string" where
  "numeral_text bits v =
     (if bit v (bits - 1) \<and> take_bit (bits - 1) v \<noteq> 0
      then ''-0x'' @ hex_nat (2 ^ bits - unat v)
      else if v = 0 then ''0'' else ''0x'' @ hex_nat (unat v))"

text \<open>Reading a string of lower-case hexadecimal digits back as a number.\<close>

definition digit_value :: "char \<Rightarrow> nat" where
  "digit_value c = (if c \<in> set ''0123456789'' then of_char c - 48 else of_char c - 87)"

definition hex_value :: "string \<Rightarrow> nat" where
  "hex_value s = foldl (\<lambda>a c. 16 * a + digit_value c) 0 s"

text \<open>A well-formed lower-case hexadecimal numeral: digits only, at least one, and no
  leading zero.\<close>

definition lower_hex_numeral :: "string \<Rightarrow> bool" where
  "lower_hex_numeral ds \<longleftrightarrow>
     ds \<noteq> [] \<and> set ds \<subseteq> set ''0123456789abcdef'' \<and> hd ds \<noteq> CHR ''0''"

subsection \<open>Sample inputs\<close>

text \<open>A register namer for the examples: the 32-bit general-purpose registers by minor
  number.\<close>

definition x86_gpr_name :: RegisterNamer where
  "x86_gpr_name r =
     (if minr r = 0 then ''eax'' else if minr r = 1 then ''ecx''
      else if minr r = 2 then ''edx'' else ''ebx'')"

definition reg_eax :: RegisterDescriptor where
  "reg_eax = \<lparr>majr = 0, minr = 0, offset = 0, nbits = 32\<rparr>"

definition reg_ecx :: RegisterDescriptor where
  "reg_ecx = \<lparr>majr = 0, minr = 1, offset = 0, nbits = 32\<rparr>"

text \<open>A label map with one entry, and one whose only entry has the empty name.\<close>

definition labels_main :: RoseLabelMap where
  "labels_main = [0x401000 \<mapsto> ''main'']"




text \<open>The address \<^verbatim>\<open>(eax + (ecx - 4)) + 8\<close>: its middle operand is a subtraction.\<close>

definition address_with_subtraction :: SgAsmExpression where
  "address_with_subtraction =
     SgAsmMemoryReferenceExpression
       (SgAsmBinaryAdd
          (SgAsmBinaryAdd (SgAsmDirectRegisterExpression reg_eax)
             (SgAsmBinarySubtract (SgAsmDirectRegisterExpression reg_ecx)
                (SgAsmIntegerValueExpression 32 4)))
          (SgAsmIntegerValueExpression 32 8))
       NullExpression"

section \<open>Properties\<close>

subsection \<open>Digits\<close>

lemma hexdigit_mem: "d < 16 \<Longrightarrow> hexdigit d \<in> set ''0123456789abcdef''"
  unfolding hexdigit_def by (rule nth_mem) simp

lemma HEXDIGIT_mem: "d < 16 \<Longrightarrow> HEXDIGIT d \<in> set ''0123456789ABCDEF''"
  unfolding HEXDIGIT_def by (rule nth_mem) simp

lemma hexdigit_nonzero: "0 < d \<Longrightarrow> d < 16 \<Longrightarrow> hexdigit d \<noteq> CHR ''0''"
proof -
  assume d: "0 < d" "d < 16"
  have "distinct ''0123456789abcdef''" by simp
  from nth_eq_iff_index_eq [OF this, of d 0] d show ?thesis
    by (simp add: hexdigit_def)
qed

lemma hex_nat_nonempty: "hex_nat n \<noteq> []"
  by (subst hex_nat.simps) simp

lemma hex_nat_digits: "set (hex_nat n) \<subseteq> set ''0123456789abcdef''"
proof (induction n rule: hex_nat.induct)
  case (1 n)
  show ?case
  proof (cases "n < 16")
    case True
    then show ?thesis using hexdigit_mem [of n] by (subst hex_nat.simps) simp
  next
    case False
    have "n mod 16 < 16" by simp
    then have "hexdigit (n mod 16) \<in> set ''0123456789abcdef''" by (rule hexdigit_mem)
    with False 1 show ?thesis by (subst hex_nat.simps) simp
  qed
qed

lemma hex_nat_first: "0 < n \<Longrightarrow> hd (hex_nat n) \<noteq> CHR ''0''"
proof (induction n rule: hex_nat.induct)
  case (1 n)
  show ?case
  proof (cases "n < 16")
    case True
    with 1 show ?thesis by (subst hex_nat.simps) (simp add: hexdigit_nonzero)
  next
    case False
    then have "0 < n div 16" by simp
    with False 1 have "hd (hex_nat (n div 16)) \<noteq> CHR ''0''" by simp
    then show ?thesis using False hex_nat_nonempty [of "n div 16"]
      by (subst hex_nat.simps) simp
  qed
qed

lemma lower_hex_numeral_hex_nat: "0 < n \<Longrightarrow> lower_hex_numeral (hex_nat n)"
  unfolding lower_hex_numeral_def
  using hex_nat_nonempty [of n] hex_nat_digits [of n] hex_nat_first [of n] by blast

lemma digit_value_hexdigit: "d < 16 \<Longrightarrow> digit_value (hexdigit d) = d"
proof -
  assume "d < 16"
  then have "d \<in> set [0..<16]" by simp
  moreover have "list_all (\<lambda>d. digit_value (hexdigit d) = d) [0..<16]" by code_simp
  ultimately show ?thesis unfolding list_all_iff by blast
qed

lemma hex_value_hex_nat: "hex_value (hex_nat n) = n"
proof (induction n rule: hex_nat.induct)
  case (1 n)
  show ?case
  proof (cases "n < 16")
    case True
    then show ?thesis by (subst hex_nat.simps) (simp add: hex_value_def digit_value_hexdigit)
  next
    case False
    with 1 have "hex_value (hex_nat (n div 16)) = n div 16" by simp
    then show ?thesis using False
      by (subst hex_nat.simps) (simp add: hex_value_def digit_value_hexdigit)
  qed
qed

lemma length_dump_loop: "length (dump_loop bs) = 2 * length bs"
  by (induction bs) (simp_all add: sprintf_02X_def)

lemma set_dump_loop: "set (dump_loop bs) \<subseteq> set ''0123456789ABCDEF''"
proof (induction bs)
  case Nil
  show ?case by simp
next
  case (Cons b bs)
  have "unat b < 2 ^ LENGTH(8)" by (rule unsigned_less)
  then have "unat b div 16 < 16" by simp
  then have hi: "HEXDIGIT (unat b div 16) \<in> set ''0123456789ABCDEF''" by (rule HEXDIGIT_mem)
  have "unat b mod 16 < 16" by simp
  then have lo: "HEXDIGIT (unat b mod 16) \<in> set ''0123456789ABCDEF''" by (rule HEXDIGIT_mem)
  from hi lo Cons show ?case by (simp add: sprintf_02X_def)
qed


subsection \<open>Two's complement on 64-bit words\<close>

lemma unat_neg:
  fixes v :: "64 word"
  assumes "n \<le> 64" "take_bit n v = v" "v \<noteq> 0"
  shows "unat (take_bit n (- v)) = 2 ^ n - unat v"
proof -
  have lt: "uint v < 2 ^ n"
  proof -
    have "uint (take_bit n v) = take_bit n (uint v)" by (simp add: unsigned_take_bit_eq)
    then show ?thesis using assms(2) by (metis take_bit_int_less_exp)
  qed
  have pos: "0 < uint v" using assms(3) by (simp add: word_greater_zero_iff uint_0_iff order_less_le)
  have dvd: "(2::int) ^ n dvd 2 ^ 64" using assms(1) by (rule le_imp_power_dvd)
  have "uint (take_bit n (- v)) = uint (- v) mod 2 ^ n"
    by (simp only: unsigned_take_bit_eq) (simp only: take_bit_eq_mod)
  also have "uint (- v) = (- uint v) mod 2 ^ 64"
    by (simp add: uint_word_ariths)
  also have "((- uint v) mod 2 ^ 64) mod 2 ^ n = (- uint v) mod 2 ^ n"
    using dvd by (rule mod_mod_cancel)
  also have "\<dots> = (2 ^ n - uint v) mod 2 ^ n"
    by (metis mod_add_self1 uminus_add_conv_diff add.commute)
  also have "\<dots> = 2 ^ n - uint v"
    using lt pos by (intro mod_pos_pos_trivial) linarith+
  finally have "uint (take_bit n (- v)) = 2 ^ n - uint v" .
  then have "nat (uint (take_bit n (- v))) = nat (2 ^ n - uint v)"
    by (rule arg_cong)
  also have "\<dots> = nat (2 ^ n) - nat (uint v)"
    using lt by (intro nat_diff_distrib) simp_all
  finally show ?thesis by (simp add: nat_power_eq)
qed

lemma unat_word_of_int_64:
  "0 \<le> k \<Longrightarrow> k < 2 ^ 64 \<Longrightarrow> unat (word_of_int k :: 64 word) = nat k"
  by (simp add: unsigned_of_int take_bit_int_eq_self)


lemma stb_word_int:
  "signed_take_bit n (w :: 64 word) = word_of_int (signed_take_bit n (uint w))"
  by transfer simp


lemma abs_offset:
  fixes raw :: "64 word"
  assumes "0 < nd"
  shows "unat (if bitVector_get (nd, raw) (nd - 1) then - get_signedValue (nd, raw) else get_signedValue (nd, raw))
         = nat \<bar>signed_value (nd, raw)\<bar>"
proof -
  define v where "v = take_bit nd raw"
  define n where "n = nd - 1"
  have uv: "uint v = take_bit nd (uint raw)" by (simp add: v_def unsigned_take_bit_eq)
  have off: "get_signedValue (nd, raw) = word_of_int (signed_take_bit n (uint v))"
    by (simp add: get_signedValue_def get_absoluteValue_def v_def n_def stb_word_int)
  have sv: "signed_value (nd, raw) = signed_take_bit n (uint v)"
    by (simp add: signed_value_def uv n_def)
  have neg: "bitVector_get (nd, raw) (nd - 1) = bit (uint v) n"
    by (auto simp: bitVector_get_def get_absoluteValue_def v_def n_def bit_uint_iff dest: bit_imp_le_length)
  show ?thesis
  proof (cases "bit (uint v) n")
    case True
    then have n63: "n < 64" by (auto simp: bit_uint_iff dest: bit_imp_le_length)
    have lo: "- (2 ^ n) \<le> signed_take_bit n (uint v)" by (rule signed_take_bit_int_greater_eq_minus_exp)
    have "signed_take_bit n (uint v) < 0" using True by (simp add: signed_take_bit_negative_iff)
    moreover have "(2::int) ^ n < 2 ^ 64" using n63 by (intro power_strict_increasing) simp_all
    ultimately have rng: "0 \<le> - signed_take_bit n (uint v)" "- signed_take_bit n (uint v) < 2 ^ 64"
      using lo by linarith+
    have "- get_signedValue (nd, raw) = word_of_int (- signed_take_bit n (uint v))"
      by (simp add: off)
    then have "unat (- get_signedValue (nd, raw)) = nat (- signed_take_bit n (uint v))"
      using rng by (simp only: unat_word_of_int_64)
    with True rng show ?thesis unfolding neg sv by simp
  next
    case False
    have "0 \<le> signed_take_bit n (uint v)" using False by (simp add: signed_take_bit_negative_iff not_less[symmetric])
    moreover have "signed_take_bit n (uint v) \<le> uint v"
      using False by (simp add: signed_take_bit_eq_if_positive take_bit_int_less_eq_self_iff)
    moreover have "uint v < 2 ^ 64" using uint_lt2p [of v] by simp
    ultimately have rng: "0 \<le> signed_take_bit n (uint v)" "signed_take_bit n (uint v) < 2 ^ 64"
      by linarith+
    have "unat (get_signedValue (nd, raw)) = nat (signed_take_bit n (uint v))"
      using rng by (simp only: off unat_word_of_int_64)
    with False rng show ?thesis unfolding neg sv by simp
  qed
qed

lemma bit_test: "((v::64 word) AND 2 ^ n \<noteq> 0) = bit v n"
  by (simp add: and_exp_eq_0_iff_not_bit)

lemma low_mask: "(v::64 word) AND (2 ^ n - 1) = take_bit n v"
  by (simp add: take_bit_eq_mask mask_eq_exp_minus_1)

lemma neg_mask: "(NOT (v::64 word) + 1) AND (2 ^ n - 1) = take_bit n (- v)"
  by (simp add: take_bit_eq_mask mask_eq_exp_minus_1 minus_eq_not_plus_1)

lemma take_bit_neg_nonzero:
  fixes v :: "64 word"
  assumes "n \<le> 64" "take_bit n v = v" "v \<noteq> 0"
  shows "take_bit n (- v) \<noteq> 0"
proof
  assume "take_bit n (- v) = 0"
  then have "unat (take_bit n (- v)) = 0" by simp
  then have "2 ^ n - unat v = 0" using unat_neg [OF assms] by simp
  moreover have "unat v < 2 ^ n"
  proof -
    have "unat (take_bit n v) = take_bit n (unat v)" by (simp add: unsigned_take_bit_eq)
    then show ?thesis using assms(2) by (metis take_bit_nat_less_exp)
  qed
  ultimately show False by simp
qed

lemma negative_text:
  fixes v :: "64 word"
  assumes "n \<le> 64" "take_bit n v = v" "v \<noteq> 0"
  shows "''-'' @ sprintf_hash_x (take_bit n (- v)) = ''-0x'' @ hex_nat (2 ^ n - unat v)"
  using take_bit_neg_nonzero [OF assms] unat_neg [OF assms] by (simp add: sprintf_hash_x_def)

lemma not_plus_1: "NOT (v::64 word) + 1 = - v"
  by (simp add: minus_eq_not_plus_1)

lemma numeral_branch:
  fixes v :: "64 word"
  assumes "n \<le> 64" "take_bit n v = v"
  shows "(if v AND 2 ^ (n - 1) \<noteq> 0 \<and> v AND (2 ^ (n - 1) - 1) \<noteq> 0
          then ''-'' @ sprintf_hash_x ((NOT v + 1) AND (2 ^ n - 1))
          else sprintf_hash_x v) = numeral_text n v"
proof (cases "bit v (n - 1) \<and> take_bit (n - 1) v \<noteq> 0")
  case True
  then have "v \<noteq> 0" by auto
  from negative_text [OF assms this] True show ?thesis
    unfolding bit_test low_mask not_plus_1 numeral_text_def by simp
next
  case False
  then show ?thesis
    unfolding bit_test low_mask not_plus_1 numeral_text_def by (auto simp: sprintf_hash_x_def)
qed

lemma unparse_integer_8:
  "unparse_integer (8, raw) labels = Inr (numeral_text 8 (take_bit 8 raw))"
  by (subst numeral_branch [of 8, symmetric])
    (simp_all add: unparse_integer_def getAsmConstant_def get_absoluteValue_def
      get_significantBits_def Let_def take_bit_word_eq_self)

lemma unparse_integer_16:
  "unparse_integer (16, raw) labels = Inr (numeral_text 16 (take_bit 16 raw))"
  by (subst numeral_branch [of 16, symmetric])
    (simp_all add: unparse_integer_def getAsmConstant_def get_absoluteValue_def
      get_significantBits_def Let_def take_bit_word_eq_self)

lemma unparse_integer_32:
  "unparse_integer (32, raw) labels =
     (if masm_x86ValToLabel (take_bit 32 raw) labels \<noteq> []
      then sprintf_s (masm_x86ValToLabel (take_bit 32 raw) labels)
      else Inr (numeral_text 32 (take_bit 32 raw)))"
  by (subst numeral_branch [of 32, symmetric])
    (simp_all add: unparse_integer_def getAsmConstant_def get_absoluteValue_def
      get_significantBits_def Let_def take_bit_word_eq_self)

lemma unparse_integer_64:
  "unparse_integer (64, raw) labels =
     (if masm_x86ValToLabel raw labels \<noteq> []
      then sprintf_s (masm_x86ValToLabel raw labels)
      else Inr (numeral_text 64 raw))"
proof -
  have m1: "(18446744073709551615 :: 64 word) = - 1" by simp
  have full: "x AND 18446744073709551615 = x" for x :: "64 word"
    unfolding m1 by simp
  show ?thesis
    by (subst numeral_branch [of 64, symmetric])
      (simp_all add: unparse_integer_def getAsmConstant_def get_absoluteValue_def
        get_significantBits_def Let_def take_bit_word_eq_self full)
qed


lemma sign_bit_read: "0 < nd \<Longrightarrow> bitVector_get (nd, raw) (nd - 1) = bit raw (nd - 1)"
  by (simp add: bitVector_get_def get_absoluteValue_def bit_take_bit_iff)

lemma emit_text_format:
  assumes "0 < nd"
  shows "emit_text regs R X S (nd, draw)
         = Inr (''['' @ regs R @ ''+'' @ regs X
                @ (if get_absoluteValue S = 1 then ''''
                   else ''*'' @ hex_nat (unat (get_absoluteValue S)))
                @ (if bit draw (nd - 1) then ''-'' else ''+'')
                @ ''0x'' @ hex_nat (nat \<bar>signed_value (nd, draw)\<bar>)
                @ '']'')"
proof -
  have mag: "unat (if bit draw (nd - 1) then - get_signedValue (nd, draw)
                   else get_signedValue (nd, draw)) = nat \<bar>signed_value (nd, draw)\<bar>"
    using abs_offset [OF assms, of draw] sign_bit_read [OF assms, of draw] by simp
  show ?thesis
    unfolding emit_text_def Let_def get_significantBits_def fst_conv
      sign_bit_read [OF assms] mag
    using assms by simp
qed

section \<open>The claims\<close>

subsection \<open>The address-pattern matcher\<close>

text \<open>
  C1.  The claim: the matcher declares a match only when the three operands are one bare
  register, one multiplication of a register by a literal and one bare literal, none left
  unclassified, and reports no match in every other case.  The constructor does not do
  that: an operand that is neither a register, a literal nor a multiplication is skipped
  by the loop, and \<^verbatim>\<open>complete_\<close> is set although a member pointer is still null.  On
  \<^verbatim>\<open>[(eax + (ecx - 4)) + 8]\<close> the matcher reports a match with no index register, and
  the unparser, instead of falling back to the generic bracketed form, dereferences the
  null pointer in \<^verbatim>\<open>emit\<close>.
\<close>

theorem unclassified_operand_declared_match:
  "complete (X86IndirectAddress_ctor address_with_subtraction)
   \<and> index_reg (X86IndirectAddress_ctor address_with_subtraction) = None
   \<and> stride_integer (X86IndirectAddress_ctor address_with_subtraction) = None
   \<and> masm_unparseX86Expression x86_gpr_name address_with_subtraction False None
       = Inl NullPointerDereference"
  by (simp add: address_with_subtraction_def X86IndirectAddress_init_def emit_def Let_def)

lemma grouping_emit_text:
  "masm_unparseX86Expression regs
     (SgAsmMemoryReferenceExpression
        (SgAsmBinaryAdd
           (SgAsmBinaryAdd (SgAsmDirectRegisterExpression R)
              (SgAsmBinaryMultiply (SgAsmDirectRegisterExpression X)
                 (SgAsmIntegerValueExpression ns sv)))
           (SgAsmIntegerValueExpression nd dv)) seg) leaMode labels
     = emit_text regs R X (ns, sv) (nd, dv)"
  "masm_unparseX86Expression regs
     (SgAsmMemoryReferenceExpression
        (SgAsmBinaryAdd
           (SgAsmBinaryAdd (SgAsmDirectRegisterExpression R)
              (SgAsmIntegerValueExpression nd dv))
           (SgAsmBinaryMultiply (SgAsmDirectRegisterExpression X)
              (SgAsmIntegerValueExpression ns sv))) seg) leaMode labels
     = emit_text regs R X (ns, sv) (nd, dv)"
  "masm_unparseX86Expression regs
     (SgAsmMemoryReferenceExpression
        (SgAsmBinaryAdd (SgAsmDirectRegisterExpression R)
           (SgAsmBinaryAdd
              (SgAsmBinaryMultiply (SgAsmDirectRegisterExpression X)
                 (SgAsmIntegerValueExpression ns sv))
              (SgAsmIntegerValueExpression nd dv))) seg) leaMode labels
     = emit_text regs R X (ns, sv) (nd, dv)"
  "masm_unparseX86Expression regs
     (SgAsmMemoryReferenceExpression
        (SgAsmBinaryAdd (SgAsmIntegerValueExpression nd dv)
           (SgAsmBinaryAdd (SgAsmDirectRegisterExpression R)
              (SgAsmBinaryMultiply (SgAsmDirectRegisterExpression X)
                 (SgAsmIntegerValueExpression ns sv)))) seg) leaMode labels
     = emit_text regs R X (ns, sv) (nd, dv)"
  by (simp_all add: X86IndirectAddress_init_def emit_def Let_def)

text \<open>
  C2.  For every base register \<open>R\<close>, index register \<open>X\<close>, scale literal \<open>S\<close> and
  displacement literal \<open>D\<close> (of a nonempty bit vector), the memory references whose
  address is grouped as \<open>(R + X*S) + D\<close>, \<open>(R + D) + X*S\<close>, \<open>R + (X*S + D)\<close> and
  \<open>D + (R + X*S)\<close> are each rendered as the same canonical text: \<^verbatim>\<open>[\<close>, the name of
  \<open>R\<close>, \<^verbatim>\<open>+\<close>, the name of \<open>X\<close>, then \<^verbatim>\<open>*\<close> and the scale unless the scale is 1, then
  the sign of the displacement, \<^verbatim>\<open>0x\<close>, the absolute value of the displacement in
  hexadecimal, and \<^verbatim>\<open>]\<close>, whatever the segment, the lea mode and the labels are.
\<close>

theorem grouping_invariance:
  assumes "0 < nd"
  shows
  "masm_unparseX86Expression regs
     (SgAsmMemoryReferenceExpression
        (SgAsmBinaryAdd
           (SgAsmBinaryAdd (SgAsmDirectRegisterExpression R)
              (SgAsmBinaryMultiply (SgAsmDirectRegisterExpression X)
                 (SgAsmIntegerValueExpression ns sv)))
           (SgAsmIntegerValueExpression nd dv)) seg) leaMode labels
     = Inr (''['' @ regs R @ ''+'' @ regs X
            @ (if take_bit ns sv = 1 then [] else ''*'' @ hex_nat (unat (take_bit ns sv)))
            @ (if bit dv (nd - 1) then ''-'' else ''+'')
            @ ''0x'' @ hex_nat (nat \<bar>signed_value (nd, dv)\<bar>) @ '']'')
   \<and> masm_unparseX86Expression regs
     (SgAsmMemoryReferenceExpression
        (SgAsmBinaryAdd
           (SgAsmBinaryAdd (SgAsmDirectRegisterExpression R)
              (SgAsmIntegerValueExpression nd dv))
           (SgAsmBinaryMultiply (SgAsmDirectRegisterExpression X)
              (SgAsmIntegerValueExpression ns sv))) seg) leaMode labels
     = Inr (''['' @ regs R @ ''+'' @ regs X
            @ (if take_bit ns sv = 1 then [] else ''*'' @ hex_nat (unat (take_bit ns sv)))
            @ (if bit dv (nd - 1) then ''-'' else ''+'')
            @ ''0x'' @ hex_nat (nat \<bar>signed_value (nd, dv)\<bar>) @ '']'')
   \<and> masm_unparseX86Expression regs
     (SgAsmMemoryReferenceExpression
        (SgAsmBinaryAdd (SgAsmDirectRegisterExpression R)
           (SgAsmBinaryAdd
              (SgAsmBinaryMultiply (SgAsmDirectRegisterExpression X)
                 (SgAsmIntegerValueExpression ns sv))
              (SgAsmIntegerValueExpression nd dv))) seg) leaMode labels
     = Inr (''['' @ regs R @ ''+'' @ regs X
            @ (if take_bit ns sv = 1 then [] else ''*'' @ hex_nat (unat (take_bit ns sv)))
            @ (if bit dv (nd - 1) then ''-'' else ''+'')
            @ ''0x'' @ hex_nat (nat \<bar>signed_value (nd, dv)\<bar>) @ '']'')
   \<and> masm_unparseX86Expression regs
     (SgAsmMemoryReferenceExpression
        (SgAsmBinaryAdd (SgAsmIntegerValueExpression nd dv)
           (SgAsmBinaryAdd (SgAsmDirectRegisterExpression R)
              (SgAsmBinaryMultiply (SgAsmDirectRegisterExpression X)
                 (SgAsmIntegerValueExpression ns sv)))) seg) leaMode labels
     = Inr (''['' @ regs R @ ''+'' @ regs X
            @ (if take_bit ns sv = 1 then [] else ''*'' @ hex_nat (unat (take_bit ns sv)))
            @ (if bit dv (nd - 1) then ''-'' else ''+'')
            @ ''0x'' @ hex_nat (nat \<bar>signed_value (nd, dv)\<bar>) @ '']'')"
  unfolding grouping_emit_text emit_text_format [OF assms]
  by (simp add: get_absoluteValue_def)

theorem grouping_invariance_witness:
  "(0::nat) < 32
   \<and> masm_unparseX86Expression x86_gpr_name
     (SgAsmMemoryReferenceExpression
        (SgAsmBinaryAdd
           (SgAsmBinaryAdd (SgAsmDirectRegisterExpression reg_eax)
              (SgAsmBinaryMultiply (SgAsmDirectRegisterExpression reg_ecx)
                 (SgAsmIntegerValueExpression 8 4)))
           (SgAsmIntegerValueExpression 32 0xfffffff8)) NullExpression) False None
     = Inr ''[eax+ecx*4-0x8]''
   \<and> masm_unparseX86Expression x86_gpr_name
     (SgAsmMemoryReferenceExpression
        (SgAsmBinaryAdd
           (SgAsmBinaryAdd (SgAsmDirectRegisterExpression reg_eax)
              (SgAsmIntegerValueExpression 32 0xfffffff8))
           (SgAsmBinaryMultiply (SgAsmDirectRegisterExpression reg_ecx)
              (SgAsmIntegerValueExpression 8 4))) NullExpression) False None
     = Inr ''[eax+ecx*4-0x8]''
   \<and> masm_unparseX86Expression x86_gpr_name
     (SgAsmMemoryReferenceExpression
        (SgAsmBinaryAdd (SgAsmDirectRegisterExpression reg_eax)
           (SgAsmBinaryAdd
              (SgAsmBinaryMultiply (SgAsmDirectRegisterExpression reg_ecx)
                 (SgAsmIntegerValueExpression 8 4))
              (SgAsmIntegerValueExpression 32 0xfffffff8))) NullExpression) False None
     = Inr ''[eax+ecx*4-0x8]''
   \<and> masm_unparseX86Expression x86_gpr_name
     (SgAsmMemoryReferenceExpression
        (SgAsmBinaryAdd (SgAsmIntegerValueExpression 32 0xfffffff8)
           (SgAsmBinaryAdd (SgAsmDirectRegisterExpression reg_eax)
              (SgAsmBinaryMultiply (SgAsmDirectRegisterExpression reg_ecx)
                 (SgAsmIntegerValueExpression 8 4)))) NullExpression) False None
     = Inr ''[eax+ecx*4-0x8]''"
proof -
  have h: "(0::nat) < 32" by simp
  have s: "take_bit 8 (4 :: 64 word) = 4" by simp
  have b: "bit (0xfffffff8 :: 64 word) (32 - 1)" by simp
  have d: "nat \<bar>signed_value (32, 0xfffffff8)\<bar> = 8"
    by (simp add: signed_value_def)
  have x: "hex_nat 4 = ''4''" "hex_nat 8 = ''8''"
    by (simp_all add: hex_nat.simps hexdigit_def)
  have t: "''['' @ x86_gpr_name reg_eax @ ''+'' @ x86_gpr_name reg_ecx
            @ (if take_bit 8 (4 :: 64 word) = 1 then []
               else ''*'' @ hex_nat (unat (take_bit 8 (4 :: 64 word))))
            @ (if bit (0xfffffff8 :: 64 word) (32 - 1) then ''-'' else ''+'')
            @ ''0x'' @ hex_nat (nat \<bar>signed_value (32, 0xfffffff8)\<bar>) @ '']''
           = ''[eax+ecx*4-0x8]''"
    unfolding s d by (simp add: b x x86_gpr_name_def reg_eax_def reg_ecx_def)
  from grouping_invariance [OF h, where regs = x86_gpr_name and R = reg_eax and X = reg_ecx
      and ns = 8 and sv = 4 and dv = "0xfffffff8" and seg = NullExpression
      and leaMode = False and labels = None]
  show ?thesis unfolding t using h by blast
qed

text \<open>
  C3.  For a matched pattern (base register, index register, scale literal and
  displacement literal all found) whose displacement has a nonempty bit vector, the text is
  \<^verbatim>\<open>[\<close>, the base, \<^verbatim>\<open>+\<close>, the index, then \<^verbatim>\<open>*\<close> and the scale (in the stream's
  hexadecimal mode) only when the scale is not 1, then \<^verbatim>\<open>-\<close> when the top bit of the
  displacement at its own width is set and \<^verbatim>\<open>+\<close> otherwise, then \<^verbatim>\<open>0x\<close> and the
  absolute value of the displacement in hexadecimal, then \<^verbatim>\<open>]\<close>.
\<close>

theorem emit_canonical_text:
  assumes "0 < nd"
  shows "emit regs
           \<lparr>frame_pointer_reg = Some R, offset_integer = Some (nd, draw),
            index_reg = Some X, stride_integer = Some S, complete = True\<rparr>
         = Inr (''['' @ regs R @ ''+'' @ regs X
                @ (if get_absoluteValue S = 1 then ''''
                   else ''*'' @ hex_nat (unat (get_absoluteValue S)))
                @ (if bit draw (nd - 1) then ''-'' else ''+'')
                @ ''0x'' @ hex_nat (nat \<bar>signed_value (nd, draw)\<bar>)
                @ '']'')"
  using assms by (simp add: emit_def emit_text_format)

theorem emit_canonical_text_witness:
  "(0::nat) < 32
   \<and> emit x86_gpr_name
        \<lparr>frame_pointer_reg = Some reg_eax, offset_integer = Some (32, 0xfffffff8),
         index_reg = Some reg_ecx, stride_integer = Some (8, 4), complete = True\<rparr>
      = Inr ''[eax+ecx*4-0x8]''"
proof -
  have h: "(0::nat) < 32" by simp
  have s: "get_absoluteValue (8, 4) = 4"
    by (simp add: get_absoluteValue_def)
  have b: "bit (0xfffffff8 :: 64 word) (32 - 1)" by simp
  have d: "nat \<bar>signed_value (32, 0xfffffff8)\<bar> = 8"
    by (simp add: signed_value_def)
  have x: "hex_nat 4 = ''4''" "hex_nat 8 = ''8''"
    by (simp_all add: hex_nat.simps hexdigit_def)
  show ?thesis
    using emit_canonical_text [OF h, of x86_gpr_name reg_eax 4294967288 reg_ecx "(8, 4)"]
    by (simp add: s b d x x86_gpr_name_def reg_eax_def reg_ecx_def)
qed

subsection \<open>Integer literals\<close>

lemma unat_take_bit_less: "unat (take_bit n (w :: 64 word)) < 2 ^ n"
proof -
  have "unat (take_bit n w) = take_bit n (unat w)" by (simp add: unsigned_take_bit_eq)
  then show ?thesis by (simp add: take_bit_nat_less_exp)
qed






text \<open>
  C6.  The claim: every numeral that is not negative carries the prefix \<^verbatim>\<open>0x\<close>.  The
  \<^verbatim>\<open>%#x\<close> conversion of C prefixes nonzero results only: the literal zero is printed as
  the single character \<^verbatim>\<open>0\<close>.
\<close>

theorem zero_literal_without_prefix:
  "masm_unparseX86Expression x86_gpr_name (SgAsmIntegerValueExpression 8 0) False None
     = Inr ''0''"
  by (simp add: unparse_integer_8 numeral_text_def)

text \<open>
  C6, as the code has it.  A literal of width 8, 16, 32 or 64 that no label replaces is
  printed as \<^verbatim>\<open>-0x\<close> and the digits of its two's-complement magnitude when it is
  negative in the sense of C4, as the single digit \<^verbatim>\<open>0\<close> (without prefix) when it is
  zero, and as \<^verbatim>\<open>0x\<close> and its digits otherwise; the digits are lower-case hexadecimal,
  without leading zero, and read back as the number printed.
\<close>

theorem numeral_format:
  assumes "bits = 8 \<or> bits = 16 \<or> bits = 32 \<or> bits = 64"
    and "bits = 8 \<or> bits = 16 \<or> masm_x86ValToLabel (take_bit bits raw) labels = []"
  shows "masm_unparseX86Expression regs (SgAsmIntegerValueExpression bits raw) leaMode labels =
           Inr (if bit (take_bit bits raw) (bits - 1)
                   \<and> take_bit (bits - 1) (take_bit bits raw) \<noteq> 0
                then ''-0x'' @ hex_nat (2 ^ bits - unat (take_bit bits raw))
                else if take_bit bits raw = 0 then ''0''
                else ''0x'' @ hex_nat (unat (take_bit bits raw)))
         \<and> lower_hex_numeral (hex_nat (2 ^ bits - unat (take_bit bits raw)))
         \<and> hex_value (hex_nat (2 ^ bits - unat (take_bit bits raw)))
             = 2 ^ bits - unat (take_bit bits raw)
         \<and> (take_bit bits raw \<noteq> 0 \<longrightarrow> lower_hex_numeral (hex_nat (unat (take_bit bits raw))))
         \<and> hex_value (hex_nat (unat (take_bit bits raw))) = unat (take_bit bits raw)"
proof -
  have res: "masm_unparseX86Expression regs (SgAsmIntegerValueExpression bits raw) leaMode labels
      = Inr (numeral_text bits (take_bit bits raw))"
    using assms
    by (auto simp: unparse_integer_8 unparse_integer_16 unparse_integer_32 unparse_integer_64
        take_bit_word_eq_self)
  have "0 < 2 ^ bits - unat (take_bit bits raw)"
    using unat_take_bit_less [of bits raw] by simp
  then have neg: "lower_hex_numeral (hex_nat (2 ^ bits - unat (take_bit bits raw)))"
    by (rule lower_hex_numeral_hex_nat)
  have pos: "take_bit bits raw \<noteq> 0 \<longrightarrow> lower_hex_numeral (hex_nat (unat (take_bit bits raw)))"
    by (simp add: lower_hex_numeral_hex_nat unat_gt_0)
  from res neg pos show ?thesis
    by (simp add: numeral_text_def hex_value_hex_nat)
qed

lemma numeral_text_32_neg8: "numeral_text 32 (take_bit 32 0xfffffff8) = ''-0x8''"
  by (simp add: numeral_text_def hex_nat.simps hexdigit_def)

theorem numeral_format_witness:
  "((32::nat) = 8 \<or> (32::nat) = 16 \<or> (32::nat) = 32 \<or> (32::nat) = 64)
   \<and> ((32::nat) = 8 \<or> (32::nat) = 16
        \<or> masm_x86ValToLabel (take_bit 32 0xfffffff8) (Some labels_main) = [])
   \<and> masm_unparseX86Expression x86_gpr_name (SgAsmIntegerValueExpression 32 0xfffffff8) False
        (Some labels_main) = Inr ''-0x8''"
proof -
  have a: "(32::nat) = 8 \<or> (32::nat) = 16 \<or> (32::nat) = 32 \<or> (32::nat) = 64" by simp
  have l: "masm_x86ValToLabel (take_bit 32 0xfffffff8) (Some labels_main) = []"
    by (simp add: masm_x86ValToLabel_def labels_main_def)
  then have b: "(32::nat) = 8 \<or> (32::nat) = 16
      \<or> masm_x86ValToLabel (take_bit 32 0xfffffff8) (Some labels_main) = []" by simp
  have "masm_unparseX86Expression x86_gpr_name (SgAsmIntegerValueExpression 32 0xfffffff8) False
        (Some labels_main) = Inr (numeral_text 32 (take_bit 32 0xfffffff8))"
    using numeral_format [OF a b, of x86_gpr_name False]
    by (simp add: numeral_text_def)
  with a b show ?thesis by (simp only: numeral_text_32_neg8)
qed

subsection \<open>Labels\<close>








subsection \<open>The byte dump\<close>

text \<open>
  C7.  For a byte sequence of length \<open>N\<close> and a maximum \<open>M\<close>, the dump is the hexadecimal
  text of the first \<open>min N M\<close> bytes, exactly \<open>min N M * 2\<close> hexadecimal digits with nothing
  between them, followed by a single \<^verbatim>\<open>+\<close> when \<open>N > M\<close> and by nothing otherwise; a
  \<^verbatim>\<open>+\<close> occurs in the dump if and only if \<open>N > M\<close>.
\<close>

theorem debug_opcode_bytes_exact:
  "debug_opcode_bytes data M =
     dump_loop (take (min (length data) (unat M)) data)
       @ (if length data > unat M then ''+'' else [])
   \<and> length (dump_loop (take (min (length data) (unat M)) data))
       = min (length data) (unat M) * 2
   \<and> set (dump_loop (take (min (length data) (unat M)) data)) \<subseteq> set ''0123456789ABCDEF''
   \<and> (CHR ''+'' \<in> set (debug_opcode_bytes data M) \<longleftrightarrow> length data > unat M)"
proof -
  let ?hex = "dump_loop (take (min (length data) (unat M)) data)"
  have eq: "debug_opcode_bytes data M = ?hex @ (if length data > unat M then ''+'' else [])"
    by (simp add: debug_opcode_bytes_def min_def)
  have len: "length ?hex = min (length data) (unat M) * 2"
    by (simp add: length_dump_loop)
  have hexs: "set ?hex \<subseteq> set ''0123456789ABCDEF''" by (rule set_dump_loop)
  then have "CHR ''+'' \<notin> set ?hex" by auto
  then have "CHR ''+'' \<in> set (debug_opcode_bytes data M) \<longleftrightarrow> length data > unat M"
    unfolding eq by simp
  with eq len hexs show ?thesis by blast
qed

theorem debug_opcode_bytes_exact_witness:
  "debug_opcode_bytes [0x8b, 0x44, 0x88, 0xf8] 3 = ''8B4488+''
   \<and> CHR ''+'' \<in> set (debug_opcode_bytes [0x8b, 0x44, 0x88, 0xf8] 3)
   \<and> debug_opcode_bytes [0x8b, 0x44, 0x88, 0xf8] 4 = ''8B4488F8''
   \<and> CHR ''+'' \<notin> set (debug_opcode_bytes [0x8b, 0x44, 0x88, 0xf8] 4)"
  using debug_opcode_bytes_exact [of "[0x8b, 0x44, 0x88, 0xf8]" 3]
    debug_opcode_bytes_exact [of "[0x8b, 0x44, 0x88, 0xf8]" 4]
  by (simp add: sprintf_02X_def HEXDIGIT_def)

subsection \<open>Unhandled kinds, null, and other widths\<close>

text \<open>
  C8.  An expression that is not null and whose variant is none of the seven handled
  kinds makes the unparser fail with the unhandled-kind error, which names the class; no
  text is returned for it.  The failure of an operand is the failure of the addition,
  subtraction or multiplication that contains it.
\<close>

theorem unhandled_kind_fatal:
  "masm_unparseX86Expression regs (SgAsmOtherExpression k) leaMode labels
     = Inl (UnhandledExpressionKind k)
   \<and> (\<forall>s. masm_unparseX86Expression regs (SgAsmOtherExpression k) leaMode labels \<noteq> Inr s)
   \<and> masm_unparseX86Expression regs (SgAsmBinaryAdd (SgAsmOtherExpression k) e) leaMode labels
       = Inl (UnhandledExpressionKind k)
   \<and> masm_unparseX86Expression regs (SgAsmBinarySubtract (SgAsmOtherExpression k) e) leaMode
       labels = Inl (UnhandledExpressionKind k)
   \<and> masm_unparseX86Expression regs (SgAsmBinaryMultiply (SgAsmOtherExpression k) e) leaMode
       labels = Inl (UnhandledExpressionKind k)"
  by simp

theorem unhandled_kind_fatal_witness:
  "masm_unparseX86Expression x86_gpr_name (SgAsmOtherExpression ''SgAsmUnaryMinus'') False None
     = Inl (UnhandledExpressionKind ''SgAsmUnaryMinus'')"
  using unhandled_kind_fatal [of x86_gpr_name "''SgAsmUnaryMinus''" False None] by simp

text \<open>
  C9.  A null expression pointer is rendered as the text \<^verbatim>\<open>BOGUS:NULL\<close>; the call
  returns normally, also for a null operand inside an expression.
\<close>

theorem null_expression_sentinel:
  "masm_unparseX86Expression regs NullExpression leaMode labels = Inr ''BOGUS:NULL''
   \<and> masm_unparseX86Expression regs
        (SgAsmBinarySubtract (SgAsmDirectRegisterExpression r) NullExpression) leaMode labels
       = Inr (regs r @ ''-BOGUS:NULL'')"
  by simp

theorem null_expression_sentinel_witness:
  "masm_unparseX86Expression x86_gpr_name NullExpression False None = Inr ''BOGUS:NULL''"
  using null_expression_sentinel [of x86_gpr_name False None] by simp

text \<open>
  C10.  An integer literal whose bit-vector size is not 8, 16, 32 or 64 is rendered as the
  empty string, whatever its bits and whatever the label map holds: no label, no numeral
  and no error.
\<close>

theorem other_width_literal_empty:
  assumes "n \<noteq> 8" "n \<noteq> 16" "n \<noteq> 32" "n \<noteq> 64"
  shows "masm_unparseX86Expression regs (SgAsmIntegerValueExpression n v) leaMode labels
         = Inr ''''"
  using assms by (simp add: unparse_integer_def get_significantBits_def Let_def)

theorem other_width_literal_empty_witness:
  "(12::nat) \<noteq> 8 \<and> (12::nat) \<noteq> 16 \<and> (12::nat) \<noteq> 32 \<and> (12::nat) \<noteq> 64
   \<and> labels_main 0x401000 = Some ''main''
   \<and> masm_unparseX86Expression x86_gpr_name (SgAsmIntegerValueExpression 12 0x401000) False
        (Some labels_main) = Inr ''''"
  using other_width_literal_empty [of 12 x86_gpr_name "0x401000" False "Some labels_main"]
  by (simp add: labels_main_def)

end
